theory Spec2Isabelle
  imports Main "HOL-Library.Sublist"
begin

section \<open>Python values\<close>

text \<open>
  The entry points take untyped Python values: the Lambda event is a \<open>Dict[str, Any]\<close>
  decoded from JSON, and the type hints of \<open>send_email\<close> are not enforced. \<open>pyval\<close> is
  the JSON fragment of Python's values (floats left out). A dict is an association list in
  insertion order.
\<close>

datatype pyval =
    PNone
  | PBool bool
  | PInt int
  | PStr string
  | PList "pyval list"
  | PDict "(string \<times> pyval) list"

text \<open>Python's truth value of an object, as \<open>if x:\<close>, \<open>not x\<close>, \<open>x or y\<close> and \<open>all\<close> use it.\<close>

fun truthy :: "pyval \<Rightarrow> bool" where
  "truthy PNone = False"
| "truthy (PBool b) = b"
| "truthy (PInt i) = (i \<noteq> 0)"
| "truthy (PStr s) = (s \<noteq> [])"
| "truthy (PList xs) = (xs \<noteq> [])"
| "truthy (PDict kvs) = (kvs \<noteq> [])"

text \<open>\<open>isinstance(x, str)\<close>.\<close>

fun isinstance_str :: "pyval \<Rightarrow> bool" where
  "isinstance_str (PStr s) = True"
| "isinstance_str v = False"

text \<open>\<open>x or y\<close>.\<close>

definition py_or :: "pyval \<Rightarrow> pyval \<Rightarrow> pyval" where
  "py_or x y = (if truthy x then x else y)"

text \<open>\<open>all(xs)\<close>.\<close>

definition py_all :: "pyval list \<Rightarrow> bool" where
  "py_all xs = list_all truthy xs"

text \<open>\<open>d.get(k)\<close> on a dict whose keys are strings: \<open>None\<close> when the key is absent.\<close>

definition dict_get :: "(string \<rightharpoonup> pyval) \<Rightarrow> string \<Rightarrow> pyval" where
  "dict_get d k = (case d k of None \<Rightarrow> PNone | Some v \<Rightarrow> v)"

text \<open>The name of a value's type, as it appears in Python's error messages.\<close>

fun type_name :: "pyval \<Rightarrow> string" where
  "type_name PNone = ''NoneType''"
| "type_name (PBool b) = ''bool''"
| "type_name (PInt i) = ''int''"
| "type_name (PStr s) = ''str''"
| "type_name (PList xs) = ''list''"
| "type_name (PDict kvs) = ''dict''"

text \<open>
  \<open>str.lower()\<close> on the ASCII letters. Strings are byte strings here (UTF-8); no character
  outside ASCII lower-cases to one of the letters of \<open>latest\<close>, so the comparison with the
  sentinel is decided by the ASCII letters alone.
\<close>

definition lower_char :: "char \<Rightarrow> char" where
  "lower_char c =
     (case map_of (zip ''ABCDEFGHIJKLMNOPQRSTUVWXYZ'' ''abcdefghijklmnopqrstuvwxyz'') c of
        Some l \<Rightarrow> l
      | None \<Rightarrow> c)"

definition lower :: "string \<Rightarrow> string" where
  "lower s = map lower_char s"

section \<open>Exceptions\<close>

text \<open>
  The exceptions (subclasses of \<open>Exception\<close>) that the code raises itself or receives from
  boto3. Each carries the text that \<open>str(e)\<close> gives, except \<open>KeyError\<close>, which carries the
  key and prints its \<open>repr\<close>.
\<close>

datatype exn =
    ValueError string
  | KeyError string
  | AttributeError string
  | ClientError string
  | ProfileNotFound string
  | OtherError string

fun str_exn :: "exn \<Rightarrow> string" where
  "str_exn (ValueError m) = m"
| "str_exn (KeyError k) = [CHR 0x27] @ k @ [CHR 0x27]"
| "str_exn (AttributeError m) = m"
| "str_exn (ClientError m) = m"
| "str_exn (ProfileNotFound m) = m"
| "str_exn (OtherError m) = m"

fun is_ClientError :: "exn \<Rightarrow> bool" where
  "is_ClientError (ClientError m) = True"
| "is_ClientError e = False"

fun is_ProfileNotFound :: "exn \<Rightarrow> bool" where
  "is_ProfileNotFound (ProfileNotFound m) = True"
| "is_ProfileNotFound e = False"

text \<open>
  The \<open>AttributeError\<close> of \<open>x.lower()\<close> on a value that is not a \<open>str\<close> (only strings
  have the method).
\<close>

definition no_attribute_lower :: "pyval \<Rightarrow> exn" where
  "no_attribute_lower v =
     AttributeError
       ([CHR 0x27] @ type_name v @ [CHR 0x27] @ '' object has no attribute ''
        @ [CHR 0x27] @ ''lower'' @ [CHR 0x27])"

section \<open>The external collaborators\<close>

text \<open>
  boto3, the operating system's environment and the remote service are parameters of the
  model. A session is identified by the profile it is bound to (\<open>None\<close> for
  \<open>boto3.Session()\<close>), a client by its session and region.
  \<^item> \<open>available_profiles\<close>: what \<open>boto3.Session().available_profiles\<close> evaluates to;
  \<^item> \<open>boto3_Session p\<close>: the exception that \<open>boto3.Session(profile_name=p)\<close> raises, if any;
  \<^item> \<open>session_client p r\<close>: the exception that \<open>session.client("ses", region_name=r)\<close>
    raises, if any;
  \<^item> \<open>client_send_email p r params\<close>: the outcome of \<open>client.send_email(**params)\<close>;
  \<^item> \<open>os_environ\<close>: the process environment.
\<close>

record world =
  available_profiles :: "exn + string list"
  boto3_Session :: "string option \<Rightarrow> exn option"
  session_client :: "string option \<Rightarrow> pyval \<Rightarrow> exn option"
  client_send_email :: "string option \<Rightarrow> pyval \<Rightarrow> pyval \<Rightarrow> exn + (string \<rightharpoonup> pyval)"
  os_environ :: "string \<rightharpoonup> string"

text \<open>The calls made to the collaborators, in order, and what was printed.\<close>

datatype call =
    Call_available_profiles
  | Call_Session "string option"
  | Call_client "string option" pyval
  | Call_send_email "string option" pyval pyval
  | Printed string

text \<open>A computation: the calls it made, and the exception it raised or the value it returned.\<close>

type_synonym 'a io = "call list \<times> (exn + 'a)"

definition io_return :: "'a \<Rightarrow> 'a io" where
  "io_return x = ([], Inr x)"

definition io_raise :: "exn \<Rightarrow> 'a io" where
  "io_raise e = ([], Inl e)"

definition io_bind :: "'a io \<Rightarrow> ('a \<Rightarrow> 'b io) \<Rightarrow> 'b io" where
  "io_bind m f =
     (case m of
        (t, Inl e) \<Rightarrow> (t, Inl e)
      | (t, Inr x) \<Rightarrow> (case f x of (t', r) \<Rightarrow> (t @ t', r)))"

section \<open>profile\_manager.py\<close>

definition get_available_profiles :: "world \<Rightarrow> string list io" where
  "get_available_profiles w = ([Call_available_profiles], available_profiles w)"

definition get_latest_profile :: "world \<Rightarrow> string option io" where
  "get_latest_profile w =
     io_bind (get_available_profiles w)
       (\<lambda>profiles. if profiles = [] then io_return None else io_return (Some (last profiles)))"

definition validate_profile :: "world \<Rightarrow> string \<Rightarrow> bool io" where
  "validate_profile w profile_name =
     (if lower profile_name = ''latest'' then
        io_bind (get_available_profiles w) (\<lambda>profiles. io_return (profiles \<noteq> []))
      else
        (case boto3_Session w (Some profile_name) of
           None \<Rightarrow> ([Call_Session (Some profile_name)], Inr True)
         | Some e \<Rightarrow>
             if is_ProfileNotFound e then ([Call_Session (Some profile_name)], Inr False)
             else ([Call_Session (Some profile_name)], Inl e)))"

text \<open>
  \<open>resolve_profile_name(profile_name: Optional[str])\<close>. Both \<open>not profile_name\<close> and
  \<open>not latest_profile\<close> test the truth value, so the empty string counts as \<open>None\<close> in
  either place.
\<close>

definition resolve_profile_name :: "world \<Rightarrow> string option \<Rightarrow> string option io" where
  "resolve_profile_name w profile_name =
     (case profile_name of
        None \<Rightarrow> io_return None
      | Some p \<Rightarrow>
          if p = [] then io_return None
          else if lower p = ''latest'' then
            io_bind (get_latest_profile w)
              (\<lambda>latest_profile.
                 case latest_profile of
                   None \<Rightarrow> io_raise (ValueError
                     (''No AWS profiles found when trying to use '' @ [CHR 0x27] @ ''latest'' @ [CHR 0x27]))
                 | Some l \<Rightarrow>
                     if l = [] then io_raise (ValueError
                       (''No AWS profiles found when trying to use '' @ [CHR 0x27] @ ''latest'' @ [CHR 0x27]))
                     else io_return (Some l))
          else io_return (Some p))"

section \<open>ses\_client.py\<close>

text \<open>
  An \<open>SESClient\<close> object: its two attributes. \<open>self.session\<close> and \<open>self.client\<close> are
  handles into boto3, determined by the profile the session is bound to and the region.
\<close>

record SESClient =
  self_profile_name :: pyval
  self_region_name :: pyval
  self_session :: "string option"

text \<open>
  \<open>_create_session\<close>: returns the (possibly reassigned) \<open>self.profile_name\<close> and the
  session. A value that is true and not a \<open>str\<close> fails at \<open>.lower()\<close>.
\<close>

definition create_session :: "world \<Rightarrow> pyval \<Rightarrow> (pyval \<times> string option) io" where
  "create_session w profile_name =
     (if \<not> truthy profile_name then
        (case boto3_Session w None of
           Some e \<Rightarrow> ([Call_Session None], Inl e)
         | None \<Rightarrow> ([Call_Session None], Inr (profile_name, None)))
      else
        (case profile_name of
           PStr s \<Rightarrow>
             io_bind
               (if lower s = ''latest'' then
                  io_bind ([Call_available_profiles], available_profiles w)
                    (\<lambda>available_profiles.
                       if available_profiles = [] then
                         io_raise (ValueError ''No AWS profiles found'')
                       else io_return (last available_profiles))
                else io_return s)
               (\<lambda>p.
                  case boto3_Session w (Some p) of
                    Some e \<Rightarrow> ([Call_Session (Some p)], Inl e)
                  | None \<Rightarrow> ([Call_Session (Some p)], Inr (PStr p, Some p)))
         | _ \<Rightarrow> io_raise (no_attribute_lower profile_name)))"

text \<open>\<open>SESClient.__init__\<close>.\<close>

definition SESClient_init :: "world \<Rightarrow> pyval \<Rightarrow> pyval \<Rightarrow> SESClient io" where
  "SESClient_init w profile_name region_name =
     io_bind (create_session w profile_name)
       (\<lambda>(profile_name', session).
          case session_client w session region_name of
            Some e \<Rightarrow> ([Call_client session region_name], Inl e)
          | None \<Rightarrow>
              ([Call_client session region_name],
               Inr \<lparr>self_profile_name = profile_name', self_region_name = region_name,
                    self_session = session\<rparr>))"

text \<open>
  Lines 81--89 of \<open>send_email\<close>: the conversion of single addresses to lists, as written
  for \<open>to_addresses\<close> and as written for \<open>cc_addresses\<close>, \<open>bcc_addresses\<close> and
  \<open>reply_to_addresses\<close>.
\<close>

definition normalize_to :: "pyval \<Rightarrow> pyval" where
  "normalize_to to_addresses =
     (if isinstance_str to_addresses then PList [to_addresses] else to_addresses)"

definition normalize_optional :: "pyval \<Rightarrow> pyval" where
  "normalize_optional addresses =
     (if truthy addresses \<and> isinstance_str addresses then PList [addresses] else addresses)"

text \<open>Lines 91--115 of \<open>send_email\<close>: the keyword arguments of the remote call.\<close>

definition send_email_params ::
  "pyval \<Rightarrow> pyval \<Rightarrow> pyval \<Rightarrow> pyval \<Rightarrow> pyval \<Rightarrow> pyval \<Rightarrow> pyval \<Rightarrow> pyval \<Rightarrow> pyval" where
  "send_email_params source to_addresses subject body_text body_html
       cc_addresses bcc_addresses reply_to_addresses =
     (let to_addresses = normalize_to to_addresses;
          cc_addresses = normalize_optional cc_addresses;
          bcc_addresses = normalize_optional bcc_addresses;
          reply_to_addresses = normalize_optional reply_to_addresses;
          message = PDict
            [(''Subject'', PDict [(''Data'', subject)]),
             (''Body'', PDict
                ([(''Text'', PDict [(''Data'', body_text)])]
                 @ (if truthy body_html then [(''Html'', PDict [(''Data'', body_html)])]
                    else [])))];
          destination = PDict
            ([(''ToAddresses'', to_addresses)]
             @ (if truthy cc_addresses then [(''CcAddresses'', cc_addresses)] else [])
             @ (if truthy bcc_addresses then [(''BccAddresses'', bcc_addresses)] else []))
      in PDict
           ([(''Source'', source), (''Destination'', destination), (''Message'', message)]
            @ (if truthy reply_to_addresses then [(''ReplyToAddresses'', reply_to_addresses)]
               else [])))"

text \<open>
  \<open>send_email\<close>: one call of the remote service; a \<open>ClientError\<close> is printed and
  raised again, any other exception passes through.
\<close>

definition send_email ::
  "world \<Rightarrow> SESClient \<Rightarrow> pyval \<Rightarrow> pyval \<Rightarrow> pyval \<Rightarrow> pyval \<Rightarrow> pyval \<Rightarrow> pyval \<Rightarrow> pyval \<Rightarrow> pyval
     \<Rightarrow> (string \<rightharpoonup> pyval) io" where
  "send_email w self source to_addresses subject body_text body_html
       cc_addresses bcc_addresses reply_to_addresses =
     (let email_params = send_email_params source to_addresses subject body_text body_html
            cc_addresses bcc_addresses reply_to_addresses;
          sent = Call_send_email (self_session self) (self_region_name self) email_params
      in case client_send_email w (self_session self) (self_region_name self) email_params of
           Inr response \<Rightarrow> ([sent], Inr response)
         | Inl e \<Rightarrow>
             if is_ClientError e then
               ([sent, Printed (''Error sending email: '' @ str_exn e)], Inl e)
             else ([sent], Inl e))"

section \<open>lambda\_handler.py\<close>

text \<open>
  The handler's result. \<open>body\<close> is the dict that the handler passes to \<open>json.dumps\<close>;
  the serialisation itself is the standard library's.
\<close>

record response =
  statusCode :: int
  body :: "(string \<times> pyval) list"

text \<open>The dict of the 400 response (lines 53--58).\<close>

definition missing_parameters :: response where
  "missing_parameters =
     \<lparr>statusCode = 400,
      body = [(''message'', PStr
        ''Missing required parameters. Required: source, to_addresses, subject, body_text'')]\<rparr>"

text \<open>\<open>os.environ.get(k)\<close>.\<close>

definition environ_get :: "world \<Rightarrow> string \<Rightarrow> pyval" where
  "environ_get w k = (case os_environ w k of None \<Rightarrow> PNone | Some v \<Rightarrow> PStr v)"

text \<open>\<open>response["MessageId"]\<close>.\<close>

definition getitem :: "(string \<rightharpoonup> pyval) \<Rightarrow> string \<Rightarrow> pyval io" where
  "getitem d k = (case d k of None \<Rightarrow> io_raise (KeyError k) | Some v \<Rightarrow> io_return v)"

text \<open>The body of the \<open>try\<close> block of \<open>handler\<close>.\<close>

definition handler_try :: "world \<Rightarrow> (string \<rightharpoonup> pyval) \<Rightarrow> response io" where
  "handler_try w event =
     (let source = dict_get event ''source'';
          to_addresses = dict_get event ''to_addresses'';
          subject = dict_get event ''subject'';
          body_text = dict_get event ''body_text'';
          body_html = dict_get event ''body_html'';
          cc_addresses = dict_get event ''cc_addresses'';
          bcc_addresses = dict_get event ''bcc_addresses'';
          reply_to_addresses = dict_get event ''reply_to_addresses'';
          profile_name = py_or (dict_get event ''profile_name'') (environ_get w ''AWS_PROFILE'');
          region_name = py_or (dict_get event ''region_name'') (environ_get w ''AWS_REGION'')
      in if \<not> py_all [source, to_addresses, subject, body_text] then
           io_return missing_parameters
         else
           io_bind (SESClient_init w profile_name region_name)
             (\<lambda>ses_client.
                io_bind
                  (send_email w ses_client source to_addresses subject body_text body_html
                     cc_addresses bcc_addresses reply_to_addresses)
                  (\<lambda>response.
                     io_bind (getitem response ''MessageId'')
                       (\<lambda>message_id.
                          io_return
                            \<lparr>statusCode = 200,
                             body = [(''message'', PStr ''Email sent successfully''),
                                     (''messageId'', message_id)]\<rparr>))))"

text \<open>\<open>handler\<close>: the \<open>try\<close> block, with \<open>except Exception\<close> turned into the 500 response.\<close>

definition handler :: "world \<Rightarrow> (string \<rightharpoonup> pyval) \<Rightarrow> call list \<times> response" where
  "handler w event =
     (case handler_try w event of
        (t, Inr r) \<Rightarrow> (t, r)
      | (t, Inl e) \<Rightarrow>
          (t, \<lparr>statusCode = 500,
               body = [(''message'', PStr (''Error sending email: '' @ str_exn e))]\<rparr>))"

section \<open>Observing requests and traces\<close>

text \<open>\<open>d[k]\<close> read as an option, and a path of keys through nested dicts.\<close>

definition item :: "pyval \<Rightarrow> string \<Rightarrow> pyval option" where
  "item d k = (case d of PDict kvs \<Rightarrow> map_of kvs k | _ \<Rightarrow> None)"

fun lookup_path :: "pyval \<Rightarrow> string list \<Rightarrow> pyval option" where
  "lookup_path v [] = Some v"
| "lookup_path v (k # ks) = (case item v k of None \<Rightarrow> None | Some v' \<Rightarrow> lookup_path v' ks)"

text \<open>The requests handed to the remote service in a trace, in order.\<close>

fun submitted :: "call list \<Rightarrow> pyval list" where
  "submitted [] = []"
| "submitted (Call_send_email p r params # cs) = params # submitted cs"
| "submitted (c # cs) = submitted cs"

text \<open>
  \<open>s in body["message"]\<close> on a handler result, as the test suite checks it after decoding
  the body.
\<close>

definition message_contains :: "response \<Rightarrow> string \<Rightarrow> bool" where
  "message_contains r s =
     (case map_of (body r) ''message'' of Some (PStr m) \<Rightarrow> sublist s m | _ \<Rightarrow> False)"

text \<open>
  The invariant that the data model states for an Email Request, as a predicate on the
  keyword arguments of the remote call: \<open>to\<close> is a non-empty collection, and \<open>source\<close>,
  \<open>subject\<close> and \<open>body_text\<close> are non-empty strings.
\<close>

fun nonempty_str :: "pyval option \<Rightarrow> bool" where
  "nonempty_str (Some (PStr s)) = (s \<noteq> [])"
| "nonempty_str v = False"

fun nonempty_list :: "pyval option \<Rightarrow> bool" where
  "nonempty_list (Some (PList xs)) = (xs \<noteq> [])"
| "nonempty_list v = False"

definition email_request_invariant :: "pyval \<Rightarrow> bool" where
  "email_request_invariant params =
     (nonempty_list (lookup_path params [''Destination'', ''ToAddresses''])
      \<and> nonempty_str (lookup_path params [''Source''])
      \<and> nonempty_str (lookup_path params [''Message'', ''Subject'', ''Data''])
      \<and> nonempty_str (lookup_path params [''Message'', ''Body'', ''Text'', ''Data'']))"

section \<open>Concrete collaborators and events\<close>

text \<open>
  A world in which every call succeeds and the service answers with a message identifier,
  one in which the service rejects the message, one whose profile list ends in a
  profile with the empty name, and one with no profile at all. The events are those of the
  test suite, and one that asks for the profile \<open>"latest"\<close>.
\<close>

definition accepting_world :: world where
  "accepting_world =
     \<lparr>available_profiles = Inr [''default'', ''dev'', ''prod''],
      boto3_Session = (\<lambda>p. None),
      session_client = (\<lambda>p r. None),
      client_send_email = (\<lambda>p r params. Inr [''MessageId'' \<mapsto> PStr ''test-message-id'']),
      os_environ = Map.empty\<rparr>"

definition rejecting_world :: world where
  "rejecting_world =
     \<lparr>available_profiles = Inr [''default'', ''dev'', ''prod''],
      boto3_Session = (\<lambda>p. None),
      session_client = (\<lambda>p r. None),
      client_send_email = (\<lambda>p r params. Inl (ClientError ''Email address not verified'')),
      os_environ = Map.empty\<rparr>"

definition unnamed_profile_world :: world where
  "unnamed_profile_world =
     \<lparr>available_profiles = Inr [''dev'', []],
      boto3_Session = (\<lambda>p. None),
      session_client = (\<lambda>p r. None),
      client_send_email = (\<lambda>p r params. Inr [''MessageId'' \<mapsto> PStr ''test-message-id'']),
      os_environ = Map.empty\<rparr>"

definition default_client :: SESClient where
  "default_client = \<lparr>self_profile_name = PNone, self_region_name = PNone, self_session = None\<rparr>"

definition minimal_event :: "string \<rightharpoonup> pyval" where
  "minimal_event =
     [''source'' \<mapsto> PStr ''sender@example.com'',
      ''to_addresses'' \<mapsto> PStr ''recipient@example.com'',
      ''subject'' \<mapsto> PStr ''Test Subject'',
      ''body_text'' \<mapsto> PStr ''Test Body'']"

definition invalid_event :: "string \<rightharpoonup> pyval" where
  "invalid_event =
     [''source'' \<mapsto> PStr ''sender@example.com'',
      ''subject'' \<mapsto> PStr ''Test Subject'']"

definition empty_to_event :: "string \<rightharpoonup> pyval" where
  "empty_to_event =
     [''source'' \<mapsto> PStr ''sender@example.com'',
      ''to_addresses'' \<mapsto> PList [],
      ''subject'' \<mapsto> PStr ''Test Subject'',
      ''body_text'' \<mapsto> PStr ''Test Body'']"

definition no_profiles_world :: world where
  "no_profiles_world =
     \<lparr>available_profiles = Inr [],
      boto3_Session = (\<lambda>p. None),
      session_client = (\<lambda>p r. None),
      client_send_email = (\<lambda>p r params. Inr [''MessageId'' \<mapsto> PStr ''test-message-id'']),
      os_environ = Map.empty\<rparr>"

definition latest_event :: "string \<rightharpoonup> pyval" where
  "latest_event =
     [''source'' \<mapsto> PStr ''sender@example.com'',
      ''to_addresses'' \<mapsto> PStr ''recipient@example.com'',
      ''subject'' \<mapsto> PStr ''Test Subject'',
      ''body_text'' \<mapsto> PStr ''Test Body'',
      ''profile_name'' \<mapsto> PStr ''latest'']"

section \<open>Properties of profile resolution\<close>

lemma lower_custom: "lower ''custom'' \<noteq> ''latest''"
  by (simp add: lower_def lower_char_def)

lemma lower_latest: "lower ''latest'' = ''latest''"
  by (simp add: lower_def lower_char_def)

text \<open>
  With an empty profile list, \<open>"latest"\<close> (in any letter case) fails with the
  \<open>ValueError\<close>, both in \<open>resolve_profile_name\<close> and, at construction, in \<open>SESClient\<close>.
\<close>

lemma resolve_latest_no_profiles:
  assumes "lower p = ''latest''" and "available_profiles w = Inr []"
  shows "resolve_profile_name w (Some p)
         = ([Call_available_profiles],
            Inl (ValueError
              (''No AWS profiles found when trying to use '' @ [CHR 0x27] @ ''latest'' @ [CHR 0x27])))"
proof -
  from assms(1) have "p \<noteq> []"
    by (auto simp: lower_def)
  with assms show ?thesis
    by (simp add: resolve_profile_name_def get_latest_profile_def get_available_profiles_def
        io_bind_def io_return_def io_raise_def)
qed

lemma SESClient_init_latest_no_profiles:
  assumes "lower p = ''latest''" and "available_profiles w = Inr []"
  shows "SESClient_init w (PStr p) region
         = ([Call_available_profiles], Inl (ValueError ''No AWS profiles found''))"
proof -
  from assms(1) have "p \<noteq> []"
    by (auto simp: lower_def)
  with assms show ?thesis
    by (simp add: SESClient_init_def create_session_def io_bind_def io_return_def io_raise_def)
qed

text \<open>
  With a profile list whose last name is not empty, \<open>"latest"\<close> resolves to that last
  name; \<open>SESClient\<close> binds its session to the last name whatever it is.
\<close>

lemma resolve_latest_last:
  assumes "lower p = ''latest''" and "available_profiles w = Inr ps"
    and "ps \<noteq> []" and "last ps \<noteq> []"
  shows "resolve_profile_name w (Some p) = ([Call_available_profiles], Inr (Some (last ps)))"
proof -
  from assms(1) have "p \<noteq> []"
    by (auto simp: lower_def)
  with assms show ?thesis
    by (simp add: resolve_profile_name_def get_latest_profile_def get_available_profiles_def
        io_bind_def io_return_def)
qed

lemma create_session_latest_last:
  assumes "lower p = ''latest''" and "available_profiles w = Inr ps"
    and "ps \<noteq> []" and "boto3_Session w (Some (last ps)) = None"
  shows "create_session w (PStr p)
         = ([Call_available_profiles, Call_Session (Some (last ps))],
            Inr (PStr (last ps), Some (last ps)))"
proof -
  from assms(1) have "p \<noteq> []"
    by (auto simp: lower_def)
  with assms show ?thesis
    by (simp add: create_session_def io_bind_def io_return_def)
qed

text \<open>
  C2 (code defect). The claim: resolving \<open>"latest"\<close> fails with the no-profiles error
  when the profile list is empty and returns the last element \<open>pn\<close> of a non-empty list
  \<open>[p1, ..., pn]\<close>. \<open>resolve_profile_name\<close> tests \<open>not latest_profile\<close> on what
  \<open>get_latest_profile\<close> returned, so a last profile with the empty name is taken for
  "no profiles": on the non-empty list \<open>["dev", ""]\<close> it raises the \<open>ValueError\<close> that
  its docstring reserves for "no profiles exist", where the claim and the sibling
  \<open>_create_session\<close> (which tests the list itself) give the last element.
\<close>

theorem C2_latest_unnamed_last_profile:
  "available_profiles unnamed_profile_world = Inr [''dev'', []]
   \<and> resolve_profile_name unnamed_profile_world (Some ''latest'')
       = ([Call_available_profiles],
          Inl (ValueError
            (''No AWS profiles found when trying to use '' @ [CHR 0x27] @ ''latest'' @ [CHR 0x27])))
   \<and> create_session unnamed_profile_world (PStr ''latest'')
       = ([Call_available_profiles, Call_Session (Some [])], Inr (PStr [], Some []))"
  by (simp add: resolve_profile_name_def create_session_def unnamed_profile_world_def
      get_latest_profile_def get_available_profiles_def io_bind_def io_return_def io_raise_def
      lower_latest)

text \<open>
  C3. \<open>resolve_profile_name\<close> returns \<open>None\<close> for \<open>None\<close> and for the empty string, and
  returns every other string that is not the sentinel (in any letter case) unchanged. It
  does so in every world, without a call to the profile store: the trace is empty.
\<close>

theorem C3_resolve_plain_name:
  "resolve_profile_name w None = ([], Inr None)
   \<and> resolve_profile_name w (Some []) = ([], Inr None)
   \<and> (p \<noteq> [] \<and> lower p \<noteq> ''latest'' \<longrightarrow>
        resolve_profile_name w (Some p) = ([], Inr (Some p)))"
  by (simp add: resolve_profile_name_def io_return_def)

theorem C3_resolve_plain_name_witness:
  "''custom'' \<noteq> [] \<and> lower ''custom'' \<noteq> ''latest''
   \<and> resolve_profile_name accepting_world None = ([], Inr None)
   \<and> resolve_profile_name accepting_world (Some ''custom'') = ([], Inr (Some ''custom''))
   \<and> resolve_profile_name unnamed_profile_world (Some ''custom'') = ([], Inr (Some ''custom''))"
  using C3_resolve_plain_name [of accepting_world "''custom''"]
    C3_resolve_plain_name [of unnamed_profile_world "''custom''"] lower_custom
  by simp

section \<open>Properties of the assembled request\<close>

lemma submitted_send_email:
  "submitted (fst (send_email w self source to_addresses subject body_text body_html
       cc_addresses bcc_addresses reply_to_addresses))
   = [send_email_params source to_addresses subject body_text body_html
       cc_addresses bcc_addresses reply_to_addresses]"
  by (simp add: send_email_def Let_def split: sum.splits)

lemma lookup_params_text:
  "lookup_path (send_email_params source to_addresses subject body_text body_html
       cc_addresses bcc_addresses reply_to_addresses) [''Message'', ''Body'', ''Text'']
   = Some (PDict [(''Data'', body_text)])"
  by (simp add: send_email_params_def item_def Let_def)

lemma lookup_params_html:
  "lookup_path (send_email_params source to_addresses subject body_text body_html
       cc_addresses bcc_addresses reply_to_addresses) [''Message'', ''Body'', ''Html'']
   = (if truthy body_html then Some (PDict [(''Data'', body_html)]) else None)"
  by (simp add: send_email_params_def item_def Let_def)

lemma invariant_params:
  "email_request_invariant (send_email_params source to_addresses subject body_text body_html
       cc_addresses bcc_addresses reply_to_addresses)
   = ((isinstance_str to_addresses \<or> nonempty_list (Some to_addresses))
      \<and> nonempty_str (Some source) \<and> nonempty_str (Some subject) \<and> nonempty_str (Some body_text))"
  by (cases to_addresses)
     (simp_all add: email_request_invariant_def send_email_params_def item_def Let_def
        normalize_to_def)

lemma lookup_params_to:
  "lookup_path (send_email_params source to_addresses subject body_text body_html
       cc_addresses bcc_addresses reply_to_addresses) [''Destination'', ''ToAddresses'']
   = Some (if isinstance_str to_addresses then PList [to_addresses] else to_addresses)"
  by (simp add: send_email_params_def item_def Let_def normalize_to_def)

lemma lookup_params_cc:
  "lookup_path (send_email_params source to_addresses subject body_text body_html
       cc_addresses bcc_addresses reply_to_addresses) [''Destination'', ''CcAddresses'']
   = (if truthy cc_addresses
      then Some (if isinstance_str cc_addresses then PList [cc_addresses] else cc_addresses)
      else None)"
  by (simp add: send_email_params_def item_def Let_def normalize_optional_def)

lemma lookup_params_bcc:
  "lookup_path (send_email_params source to_addresses subject body_text body_html
       cc_addresses bcc_addresses reply_to_addresses) [''Destination'', ''BccAddresses'']
   = (if truthy bcc_addresses
      then Some (if isinstance_str bcc_addresses then PList [bcc_addresses] else bcc_addresses)
      else None)"
  by (simp add: send_email_params_def item_def Let_def normalize_optional_def)

lemma lookup_params_reply_to:
  "lookup_path (send_email_params source to_addresses subject body_text body_html
       cc_addresses bcc_addresses reply_to_addresses) [''ReplyToAddresses'']
   = (if truthy reply_to_addresses
      then Some (if isinstance_str reply_to_addresses then PList [reply_to_addresses]
                 else reply_to_addresses)
      else None)"
  by (simp add: send_email_params_def item_def Let_def normalize_optional_def)

text \<open>
  C1 (corrected). The claim: for each of \<open>to_addresses\<close>, \<open>cc_addresses\<close>,
  \<open>bcc_addresses\<close> and \<open>reply_to_addresses\<close>, a single string \<open>s\<close> becomes \<open>[s]\<close> and a
  list is left unchanged. What holds, in the request that \<open>send_email\<close> submits:
  \<open>ToAddresses\<close> is \<open>[s]\<close> for every string \<open>s\<close> and the list itself for every list;
  \<open>CcAddresses\<close>, \<open>BccAddresses\<close> and \<open>ReplyToAddresses\<close> are \<open>[s]\<close> for every non-empty
  string \<open>s\<close> and the list itself for every non-empty list, while the empty string fails
  the guard \<open>x and isinstance(x, str)\<close>, is not wrapped, and like the empty list leaves
  the key out of the request.
\<close>

theorem C1_normalization:
  "submitted (fst (send_email w self source to_addresses subject body_text body_html
       cc_addresses bcc_addresses reply_to_addresses))
     = [send_email_params source to_addresses subject body_text body_html
          cc_addresses bcc_addresses reply_to_addresses]
   \<and> (\<forall>s. to_addresses = PStr s \<longrightarrow>
         lookup_path (send_email_params source to_addresses subject body_text body_html
           cc_addresses bcc_addresses reply_to_addresses) [''Destination'', ''ToAddresses'']
         = Some (PList [PStr s]))
   \<and> (\<forall>xs. to_addresses = PList xs \<longrightarrow>
         lookup_path (send_email_params source to_addresses subject body_text body_html
           cc_addresses bcc_addresses reply_to_addresses) [''Destination'', ''ToAddresses'']
         = Some (PList xs))
   \<and> (\<forall>s. cc_addresses = PStr s \<longrightarrow>
         lookup_path (send_email_params source to_addresses subject body_text body_html
           cc_addresses bcc_addresses reply_to_addresses) [''Destination'', ''CcAddresses'']
         = (if s = [] then None else Some (PList [PStr s])))
   \<and> (\<forall>xs. cc_addresses = PList xs \<longrightarrow>
         lookup_path (send_email_params source to_addresses subject body_text body_html
           cc_addresses bcc_addresses reply_to_addresses) [''Destination'', ''CcAddresses'']
         = (if xs = [] then None else Some (PList xs)))
   \<and> (\<forall>s. bcc_addresses = PStr s \<longrightarrow>
         lookup_path (send_email_params source to_addresses subject body_text body_html
           cc_addresses bcc_addresses reply_to_addresses) [''Destination'', ''BccAddresses'']
         = (if s = [] then None else Some (PList [PStr s])))
   \<and> (\<forall>xs. bcc_addresses = PList xs \<longrightarrow>
         lookup_path (send_email_params source to_addresses subject body_text body_html
           cc_addresses bcc_addresses reply_to_addresses) [''Destination'', ''BccAddresses'']
         = (if xs = [] then None else Some (PList xs)))
   \<and> (\<forall>s. reply_to_addresses = PStr s \<longrightarrow>
         lookup_path (send_email_params source to_addresses subject body_text body_html
           cc_addresses bcc_addresses reply_to_addresses) [''ReplyToAddresses'']
         = (if s = [] then None else Some (PList [PStr s])))
   \<and> (\<forall>xs. reply_to_addresses = PList xs \<longrightarrow>
         lookup_path (send_email_params source to_addresses subject body_text body_html
           cc_addresses bcc_addresses reply_to_addresses) [''ReplyToAddresses'']
         = (if xs = [] then None else Some (PList xs)))"
  by (simp del: lookup_path.simps
      add: submitted_send_email lookup_params_to lookup_params_cc lookup_params_bcc
        lookup_params_reply_to)

theorem C1_normalization_witness:
  "lookup_path (send_email_params (PStr ''a@x.com'') (PStr ''b@x.com'') (PStr ''s'') (PStr ''t'')
       PNone (PStr ''c@x.com'') (PList [PStr ''d@x.com'', PStr ''e@x.com'']) (PStr ''r@x.com''))
     [''Destination'', ''ToAddresses''] = Some (PList [PStr ''b@x.com''])
   \<and> lookup_path (send_email_params (PStr ''a@x.com'') (PStr ''b@x.com'') (PStr ''s'') (PStr ''t'')
       PNone (PStr ''c@x.com'') (PList [PStr ''d@x.com'', PStr ''e@x.com'']) (PStr ''r@x.com''))
     [''Destination'', ''CcAddresses''] = Some (PList [PStr ''c@x.com''])
   \<and> lookup_path (send_email_params (PStr ''a@x.com'') (PStr ''b@x.com'') (PStr ''s'') (PStr ''t'')
       PNone (PStr ''c@x.com'') (PList [PStr ''d@x.com'', PStr ''e@x.com'']) (PStr ''r@x.com''))
     [''Destination'', ''BccAddresses''] = Some (PList [PStr ''d@x.com'', PStr ''e@x.com''])
   \<and> lookup_path (send_email_params (PStr ''a@x.com'') (PStr ''b@x.com'') (PStr ''s'') (PStr ''t'')
       PNone (PStr ''c@x.com'') (PList [PStr ''d@x.com'', PStr ''e@x.com'']) (PStr ''r@x.com''))
     [''ReplyToAddresses''] = Some (PList [PStr ''r@x.com''])"
  using C1_normalization [of accepting_world default_client
      "PStr ''a@x.com''" "PStr ''b@x.com''" "PStr ''s''" "PStr ''t''" PNone
      "PStr ''c@x.com''" "PList [PStr ''d@x.com'', PStr ''e@x.com'']" "PStr ''r@x.com''"]
  by (simp del: lookup_path.simps)

text \<open>
  The claim fails for \<open>cc_addresses = ""\<close>: the value is not wrapped into \<open>[""]\<close>, and
  the request carries no \<open>CcAddresses\<close>.
\<close>

theorem C1_empty_cc_counterexample:
  "normalize_optional (PStr []) \<noteq> PList [PStr []]
   \<and> lookup_path
         (send_email_params (PStr ''a@x.com'') (PStr ''b@x.com'') (PStr ''s'') (PStr ''t'')
            PNone (PStr []) PNone PNone)
         [''Destination'', ''CcAddresses''] \<noteq> Some (PList [PStr []])"
  by (simp add: normalize_optional_def normalize_to_def send_email_params_def item_def)

text \<open>
  C4. A \<open>send_email\<close> call with only \<open>source\<close>, \<open>to_addresses\<close>, \<open>subject\<close> and
  \<open>body_text\<close> (the optional parameters at their default \<open>None\<close>) submits one request; it
  has \<open>ToAddresses\<close> (the normalized \<open>to_addresses\<close>) and the text part, and has no
  \<open>CcAddresses\<close>, \<open>BccAddresses\<close>, \<open>ReplyToAddresses\<close> or \<open>Html\<close> key.
\<close>

theorem C4_required_fields_only:
  "submitted (fst (send_email w self source to_addresses subject body_text PNone PNone PNone PNone))
     = [send_email_params source to_addresses subject body_text PNone PNone PNone PNone]
   \<and> lookup_path (send_email_params source to_addresses subject body_text PNone PNone PNone PNone)
         [''Destination'', ''ToAddresses''] = Some (normalize_to to_addresses)
   \<and> lookup_path (send_email_params source to_addresses subject body_text PNone PNone PNone PNone)
         [''Message'', ''Body'', ''Text''] = Some (PDict [(''Data'', body_text)])
   \<and> lookup_path (send_email_params source to_addresses subject body_text PNone PNone PNone PNone)
         [''Destination'', ''CcAddresses''] = None
   \<and> lookup_path (send_email_params source to_addresses subject body_text PNone PNone PNone PNone)
         [''Destination'', ''BccAddresses''] = None
   \<and> lookup_path (send_email_params source to_addresses subject body_text PNone PNone PNone PNone)
         [''ReplyToAddresses''] = None
   \<and> lookup_path (send_email_params source to_addresses subject body_text PNone PNone PNone PNone)
         [''Message'', ''Body'', ''Html''] = None"
  by (simp add: submitted_send_email send_email_params_def normalize_optional_def item_def)

theorem C4_required_fields_only_witness:
  "submitted (fst (send_email accepting_world default_client
       (PStr ''a@x.com'') (PStr ''b@x.com'') (PStr ''s'') (PStr ''t'') PNone PNone PNone PNone))
     = [PDict
          [(''Source'', PStr ''a@x.com''),
           (''Destination'', PDict [(''ToAddresses'', PList [PStr ''b@x.com''])]),
           (''Message'', PDict
              [(''Subject'', PDict [(''Data'', PStr ''s'')]),
               (''Body'', PDict [(''Text'', PDict [(''Data'', PStr ''t'')])])])]]"
  using C4_required_fields_only [of accepting_world default_client
      "PStr ''a@x.com''" "PStr ''b@x.com''" "PStr ''s''" "PStr ''t''"]
  by (simp add: send_email_params_def normalize_to_def normalize_optional_def)

text \<open>
  C5 (corrected). The claim: the body always has a text part, and has an HTML part if and
  only if \<open>body_html\<close> is supplied. What holds: the text part is always there, and the HTML
  part is there if and only if \<open>body_html\<close> is true in Python's sense (the guard is
  \<open>if body_html:\<close>), that is supplied and not empty; it then carries \<open>body_html\<close>.
\<close>

theorem C5_text_and_html:
  "submitted (fst (send_email w self source to_addresses subject body_text body_html
       cc_addresses bcc_addresses reply_to_addresses))
     = [send_email_params source to_addresses subject body_text body_html
          cc_addresses bcc_addresses reply_to_addresses]
   \<and> lookup_path (send_email_params source to_addresses subject body_text body_html
          cc_addresses bcc_addresses reply_to_addresses) [''Message'', ''Body'', ''Text'']
       = Some (PDict [(''Data'', body_text)])
   \<and> (lookup_path (send_email_params source to_addresses subject body_text body_html
          cc_addresses bcc_addresses reply_to_addresses) [''Message'', ''Body'', ''Html'']
        \<noteq> None) = truthy body_html
   \<and> (truthy body_html \<longrightarrow>
        lookup_path (send_email_params source to_addresses subject body_text body_html
          cc_addresses bcc_addresses reply_to_addresses) [''Message'', ''Body'', ''Html'']
        = Some (PDict [(''Data'', body_html)]))"
  by (simp del: lookup_path.simps
      add: submitted_send_email lookup_params_text lookup_params_html)

theorem C5_text_and_html_witness:
  "truthy (PStr ''<h1>t</h1>'')
   \<and> lookup_path (send_email_params (PStr ''a@x.com'') (PStr ''b@x.com'') (PStr ''s'')
          (PStr ''t'') (PStr ''<h1>t</h1>'') PNone PNone PNone) [''Message'', ''Body'', ''Text'']
       = Some (PDict [(''Data'', PStr ''t'')])
   \<and> lookup_path (send_email_params (PStr ''a@x.com'') (PStr ''b@x.com'') (PStr ''s'')
          (PStr ''t'') (PStr ''<h1>t</h1>'') PNone PNone PNone) [''Message'', ''Body'', ''Html'']
       = Some (PDict [(''Data'', PStr ''<h1>t</h1>'')])"
  using C5_text_and_html [of accepting_world default_client
      "PStr ''a@x.com''" "PStr ''b@x.com''" "PStr ''s''" "PStr ''t''" "PStr ''<h1>t</h1>''"
      PNone PNone PNone]
  by (simp del: lookup_path.simps)

text \<open>The claim fails for \<open>body_html = ""\<close>: it is supplied, and the body has no HTML part.\<close>

theorem C5_empty_html_counterexample:
  "PStr [] \<noteq> PNone
   \<and> lookup_path
         (send_email_params (PStr ''a@x.com'') (PStr ''b@x.com'') (PStr ''s'') (PStr ''t'')
            (PStr []) PNone PNone PNone)
         [''Message'', ''Body'', ''Html''] = None"
  by (simp del: lookup_path.simps add: lookup_params_html)

text \<open>
  C6 (corrected). The claim: every request that \<open>send_email\<close> submits has a non-empty
  \<open>to\<close> collection and non-empty strings as \<open>source\<close>, \<open>subject\<close> and \<open>body_text\<close>.
  \<open>send_email\<close> checks none of its arguments. What holds: it submits exactly one request,
  built from the arguments as they are, and that request satisfies the invariant exactly
  when the arguments do: \<open>to_addresses\<close> a string or a non-empty list, and \<open>source\<close>,
  \<open>subject\<close> and \<open>body_text\<close> non-empty strings.
\<close>

theorem C6_invariant_of_arguments:
  "submitted (fst (send_email w self source to_addresses subject body_text body_html
       cc_addresses bcc_addresses reply_to_addresses))
     = [send_email_params source to_addresses subject body_text body_html
          cc_addresses bcc_addresses reply_to_addresses]
   \<and> email_request_invariant (send_email_params source to_addresses subject body_text body_html
          cc_addresses bcc_addresses reply_to_addresses)
       = ((isinstance_str to_addresses \<or> nonempty_list (Some to_addresses))
          \<and> nonempty_str (Some source) \<and> nonempty_str (Some subject)
          \<and> nonempty_str (Some body_text))"
  by (simp add: submitted_send_email invariant_params)

theorem C6_invariant_of_arguments_witness:
  "(isinstance_str (PStr ''b@x.com'') \<or> nonempty_list (Some (PStr ''b@x.com'')))
   \<and> nonempty_str (Some (PStr ''a@x.com'')) \<and> nonempty_str (Some (PStr ''s''))
   \<and> nonempty_str (Some (PStr ''t''))
   \<and> email_request_invariant
        (send_email_params (PStr ''a@x.com'') (PStr ''b@x.com'') (PStr ''s'') (PStr ''t'')
           PNone PNone PNone PNone)"
  using C6_invariant_of_arguments [of accepting_world default_client
      "PStr ''a@x.com''" "PStr ''b@x.com''" "PStr ''s''" "PStr ''t''" PNone PNone PNone PNone]
  by simp

text \<open>
  The claim fails for \<open>send_email("", [], "", "")\<close>: the call reaches the remote service,
  which answers, with a request that has an empty \<open>ToAddresses\<close> and empty strings.
\<close>

theorem C6_unchecked_counterexample:
  "submitted (fst (send_email accepting_world default_client
       (PStr []) (PList []) (PStr []) (PStr []) PNone PNone PNone PNone))
     = [send_email_params (PStr []) (PList []) (PStr []) (PStr []) PNone PNone PNone PNone]
   \<and> snd (send_email accepting_world default_client
       (PStr []) (PList []) (PStr []) (PStr []) PNone PNone PNone PNone)
     = Inr [''MessageId'' \<mapsto> PStr ''test-message-id'']
   \<and> \<not> email_request_invariant
         (send_email_params (PStr []) (PList []) (PStr []) (PStr []) PNone PNone PNone PNone)"
  by (simp add: submitted_send_email invariant_params send_email_def accepting_world_def Let_def)

section \<open>Properties of the handler\<close>

lemma handler_rejects:
  assumes "\<not> py_all [dict_get event ''source'', dict_get event ''to_addresses'',
                      dict_get event ''subject'', dict_get event ''body_text'']"
  shows "handler w event = ([], missing_parameters)"
  using assms by (simp add: handler_def handler_try_def Let_def io_return_def)

lemma missing_parameters_message:
  "statusCode missing_parameters = 400
   \<and> message_contains missing_parameters ''Missing required parameters''"
  by (simp add: missing_parameters_def message_contains_def)

text \<open>
  C7. When \<open>source\<close>, \<open>to_addresses\<close>, \<open>subject\<close> or \<open>body_text\<close> is missing from the
  event (\<open>event.get\<close> gives \<open>None\<close>), the handler returns status 400 with a message that
  contains "Missing required parameters", and its trace is empty: no session, no client
  and no send.
\<close>

theorem C7_missing_field:
  assumes "dict_get event ''source'' = PNone \<or> dict_get event ''to_addresses'' = PNone
           \<or> dict_get event ''subject'' = PNone \<or> dict_get event ''body_text'' = PNone"
  shows "fst (handler w event) = []
         \<and> snd (handler w event) = missing_parameters
         \<and> statusCode (snd (handler w event)) = 400
         \<and> message_contains (snd (handler w event)) ''Missing required parameters''"
proof -
  from assms
  have "\<not> py_all [dict_get event ''source'', dict_get event ''to_addresses'',
                   dict_get event ''subject'', dict_get event ''body_text'']"
    by (auto simp: py_all_def)
  then have "handler w event = ([], missing_parameters)"
    by (rule handler_rejects)
  then show ?thesis
    using missing_parameters_message by simp
qed

theorem C7_missing_field_witness:
  "dict_get invalid_event ''body_text'' = PNone
   \<and> fst (handler accepting_world invalid_event) = []
   \<and> statusCode (snd (handler accepting_world invalid_event)) = 400
   \<and> message_contains (snd (handler accepting_world invalid_event)) ''Missing required parameters''"
proof -
  have missing: "dict_get invalid_event ''body_text'' = PNone"
    by (simp add: dict_get_def invalid_event_def)
  then have "dict_get invalid_event ''source'' = PNone
      \<or> dict_get invalid_event ''to_addresses'' = PNone
      \<or> dict_get invalid_event ''subject'' = PNone
      \<or> dict_get invalid_event ''body_text'' = PNone"
    by simp
  from C7_missing_field [OF this, of accepting_world] missing
  show ?thesis by blast
qed

text \<open>
  C10. A required field that is present but empty (the empty string as \<open>source\<close>,
  \<open>subject\<close> or \<open>body_text\<close>, the empty list as \<open>to_addresses\<close>) is treated as a
  missing one: status 400, the same message, and an empty trace.
\<close>

theorem C10_empty_field:
  assumes "event ''source'' = Some (PStr []) \<or> event ''to_addresses'' = Some (PList [])
           \<or> event ''subject'' = Some (PStr []) \<or> event ''body_text'' = Some (PStr [])"
  shows "fst (handler w event) = []
         \<and> snd (handler w event) = missing_parameters
         \<and> statusCode (snd (handler w event)) = 400
         \<and> message_contains (snd (handler w event)) ''Missing required parameters''"
proof -
  from assms
  have "\<not> py_all [dict_get event ''source'', dict_get event ''to_addresses'',
                   dict_get event ''subject'', dict_get event ''body_text'']"
    by (auto simp: py_all_def dict_get_def)
  then have "handler w event = ([], missing_parameters)"
    by (rule handler_rejects)
  then show ?thesis
    using missing_parameters_message by simp
qed

theorem C10_empty_field_witness:
  "empty_to_event ''to_addresses'' = Some (PList [])
   \<and> fst (handler accepting_world empty_to_event) = []
   \<and> statusCode (snd (handler accepting_world empty_to_event)) = 400
   \<and> message_contains (snd (handler accepting_world empty_to_event))
        ''Missing required parameters''"
proof -
  have empty: "empty_to_event ''to_addresses'' = Some (PList [])"
    by (simp add: empty_to_event_def)
  then have "empty_to_event ''source'' = Some (PStr [])
      \<or> empty_to_event ''to_addresses'' = Some (PList [])
      \<or> empty_to_event ''subject'' = Some (PStr [])
      \<or> empty_to_event ''body_text'' = Some (PStr [])"
    by simp
  from C10_empty_field [OF this, of accepting_world] empty
  show ?thesis by blast
qed

lemma handler_accepts:
  assumes "py_all [dict_get event ''source'', dict_get event ''to_addresses'',
                   dict_get event ''subject'', dict_get event ''body_text'']"
  shows "handler_try w event =
     io_bind (SESClient_init w
         (py_or (dict_get event ''profile_name'') (environ_get w ''AWS_PROFILE''))
         (py_or (dict_get event ''region_name'') (environ_get w ''AWS_REGION'')))
       (\<lambda>ses_client.
          io_bind
            (send_email w ses_client (dict_get event ''source'') (dict_get event ''to_addresses'')
               (dict_get event ''subject'') (dict_get event ''body_text'')
               (dict_get event ''body_html'') (dict_get event ''cc_addresses'')
               (dict_get event ''bcc_addresses'') (dict_get event ''reply_to_addresses''))
            (\<lambda>response.
               io_bind (getitem response ''MessageId'')
                 (\<lambda>message_id.
                    io_return
                      \<lparr>statusCode = 200,
                       body = [(''message'', PStr ''Email sent successfully''),
                               (''messageId'', message_id)]\<rparr>)))"
  using assms by (simp add: handler_try_def Let_def)

lemma submitted_append: "submitted (xs @ ys) = submitted xs @ submitted ys"
  by (induction xs rule: submitted.induct) simp_all

lemma submitted_create_session: "submitted (fst (create_session w p)) = []"
  by (auto simp: create_session_def io_bind_def io_return_def io_raise_def
      split: option.splits pyval.splits sum.splits if_splits)

lemma submitted_SESClient_init: "submitted (fst (SESClient_init w p r)) = []"
proof (cases "create_session w p")
  case (Pair t res)
  with submitted_create_session [of w p] have t: "submitted t = []" by simp
  show ?thesis
    using Pair t
    by (cases res)
       (auto simp: SESClient_init_def io_bind_def submitted_append split: option.splits prod.splits)
qed

lemma minimal_event_required:
  "truthy (dict_get minimal_event ''source'')"
  "truthy (dict_get minimal_event ''to_addresses'')"
  "truthy (dict_get minimal_event ''subject'')"
  "truthy (dict_get minimal_event ''body_text'')"
  by (simp_all add: dict_get_def minimal_event_def)


lemma minimal_event_init_rejecting:
  "SESClient_init rejecting_world
     (py_or (dict_get minimal_event ''profile_name'') (environ_get rejecting_world ''AWS_PROFILE''))
     (py_or (dict_get minimal_event ''region_name'') (environ_get rejecting_world ''AWS_REGION''))
   = ([Call_Session None, Call_client None PNone], Inr default_client)"
  by (simp add: SESClient_init_def create_session_def io_bind_def py_or_def dict_get_def
      minimal_event_def environ_get_def rejecting_world_def default_client_def)



lemma send_email_raises:
  assumes "client_send_email w (self_session self) (self_region_name self)
             (send_email_params source to_addresses subject body_text body_html
                cc_addresses bcc_addresses reply_to_addresses) = Inl e"
  shows "snd (send_email w self source to_addresses subject body_text body_html
                cc_addresses bcc_addresses reply_to_addresses) = Inl e"
  using assms by (simp add: send_email_def Let_def)

lemma latest_event_required:
  "truthy (dict_get latest_event ''source'')"
  "truthy (dict_get latest_event ''to_addresses'')"
  "truthy (dict_get latest_event ''subject'')"
  "truthy (dict_get latest_event ''body_text'')"
  by (simp_all add: dict_get_def latest_event_def)

lemma latest_event_init_no_profiles:
  "SESClient_init no_profiles_world
     (py_or (dict_get latest_event ''profile_name'') (environ_get no_profiles_world ''AWS_PROFILE''))
     (py_or (dict_get latest_event ''region_name'') (environ_get no_profiles_world ''AWS_REGION''))
   = ([Call_available_profiles], Inl (ValueError ''No AWS profiles found''))"
  by (simp add: SESClient_init_def create_session_def io_bind_def io_raise_def io_return_def
      py_or_def dict_get_def latest_event_def environ_get_def no_profiles_world_def lower_latest)

text \<open>
  C9. When the four required fields are present (true in Python's sense) and either the
  construction of the client raises an exception \<open>e\<close> or, after it, the remote call
  \<open>client.send_email(**email_params)\<close> does, the handler returns status 500 with the
  message \<open>"Error sending email: " + str(e)\<close>, which contains "Error sending email" and
  \<open>str(e)\<close>; the trace holds at most one request to the remote service, so nothing is
  retried.
\<close>

theorem C9_failure:
  assumes "truthy (dict_get event ''source'')" and "truthy (dict_get event ''to_addresses'')"
    and "truthy (dict_get event ''subject'')" and "truthy (dict_get event ''body_text'')"
    and "(\<exists>t. SESClient_init w
            (py_or (dict_get event ''profile_name'') (environ_get w ''AWS_PROFILE''))
            (py_or (dict_get event ''region_name'') (environ_get w ''AWS_REGION''))
          = (t, Inl e))
       \<or> (\<exists>t ses_client.
            SESClient_init w
              (py_or (dict_get event ''profile_name'') (environ_get w ''AWS_PROFILE''))
              (py_or (dict_get event ''region_name'') (environ_get w ''AWS_REGION''))
            = (t, Inr ses_client)
          \<and> client_send_email w (self_session ses_client) (self_region_name ses_client)
              (send_email_params (dict_get event ''source'') (dict_get event ''to_addresses'')
                 (dict_get event ''subject'') (dict_get event ''body_text'')
                 (dict_get event ''body_html'') (dict_get event ''cc_addresses'')
                 (dict_get event ''bcc_addresses'') (dict_get event ''reply_to_addresses''))
            = Inl e)"
  shows "snd (handler w event)
         = \<lparr>statusCode = 500,
            body = [(''message'', PStr (''Error sending email: '' @ str_exn e))]\<rparr>
       \<and> statusCode (snd (handler w event)) = 500
       \<and> message_contains (snd (handler w event)) ''Error sending email''
       \<and> message_contains (snd (handler w event)) (str_exn e)
       \<and> length (submitted (fst (handler w event))) \<le> 1"
proof -
  let ?init = "SESClient_init w
      (py_or (dict_get event ''profile_name'') (environ_get w ''AWS_PROFILE''))
      (py_or (dict_get event ''region_name'') (environ_get w ''AWS_REGION''))"
  let ?send = "\<lambda>ses_client. send_email w ses_client
      (dict_get event ''source'') (dict_get event ''to_addresses'')
      (dict_get event ''subject'') (dict_get event ''body_text'')
      (dict_get event ''body_html'') (dict_get event ''cc_addresses'')
      (dict_get event ''bcc_addresses'') (dict_get event ''reply_to_addresses'')"
  from assms(1-4)
  have all: "py_all [dict_get event ''source'', dict_get event ''to_addresses'',
                dict_get event ''subject'', dict_get event ''body_text'']"
    by (simp add: py_all_def)
  have no_send: "submitted (fst ?init) = []"
    by (rule submitted_SESClient_init)
  from assms(5)
  have "\<exists>t. handler w event
         = (t, \<lparr>statusCode = 500,
                body = [(''message'', PStr (''Error sending email: '' @ str_exn e))]\<rparr>)
       \<and> length (submitted t) \<le> 1"
  proof
    assume "\<exists>t. ?init = (t, Inl e)"
    then obtain t where init: "?init = (t, Inl e)" ..
    with no_send have "submitted t = []" by simp
    with init show ?thesis
      by (simp add: handler_def handler_accepts [OF all] io_bind_def)
  next
    assume "\<exists>t ses_client. ?init = (t, Inr ses_client)
        \<and> client_send_email w (self_session ses_client) (self_region_name ses_client)
            (send_email_params (dict_get event ''source'') (dict_get event ''to_addresses'')
               (dict_get event ''subject'') (dict_get event ''body_text'')
               (dict_get event ''body_html'') (dict_get event ''cc_addresses'')
               (dict_get event ''bcc_addresses'') (dict_get event ''reply_to_addresses''))
          = Inl e"
    then obtain t1 ses_client where init: "?init = (t1, Inr ses_client)"
      and remote: "client_send_email w (self_session ses_client) (self_region_name ses_client)
            (send_email_params (dict_get event ''source'') (dict_get event ''to_addresses'')
               (dict_get event ''subject'') (dict_get event ''body_text'')
               (dict_get event ''body_html'') (dict_get event ''cc_addresses'')
               (dict_get event ''bcc_addresses'') (dict_get event ''reply_to_addresses''))
          = Inl e"
      by blast
    from remote have "snd (?send ses_client) = Inl e"
      by (rule send_email_raises)
    then obtain t2 where send: "?send ses_client = (t2, Inl e)"
      by (cases "?send ses_client") simp
    from init no_send have "submitted t1 = []" by simp
    moreover from send submitted_send_email
      [of w ses_client "dict_get event ''source''" "dict_get event ''to_addresses''"
          "dict_get event ''subject''" "dict_get event ''body_text''"
          "dict_get event ''body_html''" "dict_get event ''cc_addresses''"
          "dict_get event ''bcc_addresses''" "dict_get event ''reply_to_addresses''"]
    have "length (submitted t2) = 1" by simp
    ultimately have "length (submitted (t1 @ t2)) \<le> 1"
      by (simp add: submitted_append)
    with init send show ?thesis
      by (simp add: handler_def handler_accepts [OF all] io_bind_def)
  qed
  then obtain t where result: "handler w event
         = (t, \<lparr>statusCode = 500,
                body = [(''message'', PStr (''Error sending email: '' @ str_exn e))]\<rparr>)"
    and once: "length (submitted t) \<le> 1"
    by blast
  have "sublist ''Error sending email'' (''Error sending email'' @ ('': '' @ str_exn e))"
    by (rule sublist_append_rightI)
  then have contains1: "sublist ''Error sending email'' (''Error sending email: '' @ str_exn e)"
    by simp
  have contains2: "sublist (str_exn e) (''Error sending email: '' @ str_exn e)"
    by (rule sublist_append_leftI)
  show ?thesis
    using result contains1 contains2 once
    by (simp add: message_contains_def)
qed

theorem C9_failure_witness:
  "truthy (dict_get minimal_event ''source'') \<and> truthy (dict_get minimal_event ''to_addresses'')
   \<and> truthy (dict_get minimal_event ''subject'') \<and> truthy (dict_get minimal_event ''body_text'')
   \<and> snd (handler rejecting_world minimal_event)
       = \<lparr>statusCode = 500,
          body = [(''message'', PStr ''Error sending email: Email address not verified'')]\<rparr>
   \<and> message_contains (snd (handler rejecting_world minimal_event)) ''Error sending email''
   \<and> message_contains (snd (handler rejecting_world minimal_event)) ''Email address not verified''
   \<and> truthy (dict_get latest_event ''source'') \<and> truthy (dict_get latest_event ''to_addresses'')
   \<and> truthy (dict_get latest_event ''subject'') \<and> truthy (dict_get latest_event ''body_text'')
   \<and> snd (handler no_profiles_world latest_event)
       = \<lparr>statusCode = 500,
          body = [(''message'', PStr ''Error sending email: No AWS profiles found'')]\<rparr>
   \<and> message_contains (snd (handler no_profiles_world latest_event)) ''Error sending email''
   \<and> message_contains (snd (handler no_profiles_world latest_event)) ''No AWS profiles found''"
proof -
  have remote:
    "client_send_email rejecting_world (self_session default_client)
       (self_region_name default_client)
       (send_email_params
          (dict_get minimal_event ''source'') (dict_get minimal_event ''to_addresses'')
          (dict_get minimal_event ''subject'') (dict_get minimal_event ''body_text'')
          (dict_get minimal_event ''body_html'') (dict_get minimal_event ''cc_addresses'')
          (dict_get minimal_event ''bcc_addresses'')
          (dict_get minimal_event ''reply_to_addresses''))
     = Inl (ClientError ''Email address not verified'')"
    by (simp add: rejecting_world_def)
  from minimal_event_init_rejecting remote
  have raised_remote:
    "(\<exists>t. SESClient_init rejecting_world
         (py_or (dict_get minimal_event ''profile_name'') (environ_get rejecting_world ''AWS_PROFILE''))
         (py_or (dict_get minimal_event ''region_name'') (environ_get rejecting_world ''AWS_REGION''))
       = (t, Inl (ClientError ''Email address not verified'')))
     \<or> (\<exists>t ses_client.
          SESClient_init rejecting_world
            (py_or (dict_get minimal_event ''profile_name'') (environ_get rejecting_world ''AWS_PROFILE''))
            (py_or (dict_get minimal_event ''region_name'') (environ_get rejecting_world ''AWS_REGION''))
          = (t, Inr ses_client)
        \<and> client_send_email rejecting_world (self_session ses_client)
            (self_region_name ses_client)
            (send_email_params
               (dict_get minimal_event ''source'') (dict_get minimal_event ''to_addresses'')
               (dict_get minimal_event ''subject'') (dict_get minimal_event ''body_text'')
               (dict_get minimal_event ''body_html'') (dict_get minimal_event ''cc_addresses'')
               (dict_get minimal_event ''bcc_addresses'')
               (dict_get minimal_event ''reply_to_addresses''))
          = Inl (ClientError ''Email address not verified''))"
    by blast
  note failure = C9_failure [OF minimal_event_required raised_remote]
  have response:
    "snd (handler rejecting_world minimal_event)
     = \<lparr>statusCode = 500,
        body = [(''message'', PStr ''Error sending email: Email address not verified'')]\<rparr>"
    using failure [THEN conjunct1] by simp
  have contains_prefix:
    "message_contains (snd (handler rejecting_world minimal_event)) ''Error sending email''"
    by (rule failure [THEN conjunct2, THEN conjunct2, THEN conjunct1])
  have contains_text:
    "message_contains (snd (handler rejecting_world minimal_event))
      ''Email address not verified''"
    using failure [THEN conjunct2, THEN conjunct2, THEN conjunct2, THEN conjunct1]
    by (simp only: str_exn.simps)
  from latest_event_init_no_profiles
  have raised_init:
    "(\<exists>t. SESClient_init no_profiles_world
         (py_or (dict_get latest_event ''profile_name'') (environ_get no_profiles_world ''AWS_PROFILE''))
         (py_or (dict_get latest_event ''region_name'') (environ_get no_profiles_world ''AWS_REGION''))
       = (t, Inl (ValueError ''No AWS profiles found'')))
     \<or> (\<exists>t ses_client.
          SESClient_init no_profiles_world
            (py_or (dict_get latest_event ''profile_name'') (environ_get no_profiles_world ''AWS_PROFILE''))
            (py_or (dict_get latest_event ''region_name'') (environ_get no_profiles_world ''AWS_REGION''))
          = (t, Inr ses_client)
        \<and> client_send_email no_profiles_world (self_session ses_client)
            (self_region_name ses_client)
            (send_email_params
               (dict_get latest_event ''source'') (dict_get latest_event ''to_addresses'')
               (dict_get latest_event ''subject'') (dict_get latest_event ''body_text'')
               (dict_get latest_event ''body_html'') (dict_get latest_event ''cc_addresses'')
               (dict_get latest_event ''bcc_addresses'')
               (dict_get latest_event ''reply_to_addresses''))
          = Inl (ValueError ''No AWS profiles found''))"
    by blast
  note construction = C9_failure [OF latest_event_required raised_init]
  have response':
    "snd (handler no_profiles_world latest_event)
     = \<lparr>statusCode = 500,
        body = [(''message'', PStr ''Error sending email: No AWS profiles found'')]\<rparr>"
    using construction [THEN conjunct1] by simp
  have contains_prefix':
    "message_contains (snd (handler no_profiles_world latest_event)) ''Error sending email''"
    by (rule construction [THEN conjunct2, THEN conjunct2, THEN conjunct1])
  have contains_text':
    "message_contains (snd (handler no_profiles_world latest_event)) ''No AWS profiles found''"
    using construction [THEN conjunct2, THEN conjunct2, THEN conjunct2, THEN conjunct1]
    by (simp only: str_exn.simps)
  from response contains_prefix contains_text minimal_event_required
    response' contains_prefix' contains_text' latest_event_required
  show ?thesis by blast
qed

end
